theory Spec2Isabelle
  imports Main
begin

section \<open>Data model of \<^verbatim>\<open>src/nix/flake.cc\<close>\<close>

text \<open>
  The commands of \<^verbatim>\<open>nix flake\<close> are thin wrappers: they parse their arguments into
  flake references, read and write the user registry, and call the evaluator.  The types
  they handle (\<^verbatim>\<open>FlakeRef\<close>, \<^verbatim>\<open>FlakeRegistry\<close>, \<^verbatim>\<open>Flake\<close>, \<^verbatim>\<open>ResolvedFlake\<close>, ...) are
  declared in \<^verbatim>\<open>primops/flake.hh\<close>, which is not part of the file; the embedding keeps
  exactly the fields and alternatives that \<^verbatim>\<open>flake.cc\<close> touches.
\<close>

text \<open>
  Modelled from the spec: the alternatives of the variant \<^verbatim>\<open>FlakeRef::data\<close>.  The file
  names only \<^verbatim>\<open>FlakeRef::IsPath\<close> (in \<^verbatim>\<open>CmdFlakeUpdate::run\<close>); the specification lists
  the kinds Path, DirectURI and Alias.
\<close>

datatype RefData = IsPath string | IsDirectURI string | IsAlias string

text \<open>
  \<^verbatim>\<open>FlakeRef\<close>: the fields read in the file are \<^verbatim>\<open>data\<close>, \<^verbatim>\<open>ref\<close> and \<^verbatim>\<open>rev\<close> (the last
  one is called \<open>rev_opt\<close> here, \<open>rev\<close> being list reversal in HOL).
\<close>

record FlakeRef =
  data :: RefData
  ref :: "string option"
  rev_opt :: "string option"

record SourceInfo =
  resolvedRef :: FlakeRef
  revCount :: "nat option"
  storePath :: string

record Flake =
  flake_id :: string
  description :: string
  epoch :: nat
  sourceInfo :: SourceInfo

record NonFlake =
  nonFlake_alias :: string
  nonFlake_sourceInfo :: SourceInfo

text \<open>
  \<^verbatim>\<open>ResolvedFlake\<close>: a flake with its resolved dependencies, held by value, so a finite
  tree.  \<^verbatim>\<open>flakeDeps\<close> is a map in the source (the loop reads \<^verbatim>\<open>info.second\<close>); it is
  the list of its pairs in iteration order here.  Modelled from the spec: the type of
  its keys, which the file does not show; the specification maps names to resolved
  flakes.
\<close>

datatype ResolvedFlake =
  ResolvedFlake
    (flake: Flake)
    (flakeDeps: "(string \<times> ResolvedFlake) list")
    (nonFlakeDeps: "NonFlake list")

text \<open>
  Every \<^verbatim>\<open>throw\<close> of the file is a constructor; the comment gives the message of the
  \<^verbatim>\<open>Error\<close> thrown.  \<open>CollaboratorError\<close> stands for an exception raised by code called
  from the file (the constructor of \<^verbatim>\<open>FlakeRef\<close>, the evaluator).
\<close>

datatype error =
    UnknownAliasError string
      \<comment> \<open>\<^verbatim>\<open>the flake alias '%s' does not exist in the user or global registry\<close>\<close>
  | NotUpdatableError FlakeRef
      \<comment> \<open>\<^verbatim>\<open>cannot update lockfile of flake '%s'\<close>\<close>
  | NotGitRepositoryError string
      \<comment> \<open>\<^verbatim>\<open>the directory '%s' is not a Git repository\<close>\<close>
  | FileExistsError string
      \<comment> \<open>\<^verbatim>\<open>file '%s' already exists\<close>\<close>
  | CollaboratorError string

subsection \<open>Registries\<close>

text \<open>
  Modelled from the spec: the container \<^verbatim>\<open>FlakeRegistry::entries\<close>, whose declaration is
  not in the file.  The specification describes it as a mapping from alias reference to
  target reference with unique keys, serialised as an ordered sequence of records; it is
  the list of its records here.  The three member functions the commands call follow
  the C++ associative-container interface: \<^verbatim>\<open>find\<close> gives the entry of a key,
  \<^verbatim>\<open>erase\<close> removes it, \<^verbatim>\<open>insert_or_assign\<close> overwrites the entry of a key that is
  present and adds an entry otherwise.
\<close>

type_synonym Registry = "(FlakeRef \<times> FlakeRef) list"

fun find_entry :: "FlakeRef \<Rightarrow> Registry \<Rightarrow> FlakeRef option" where
  "find_entry k [] = None"
| "find_entry k ((k', v) # es) = (if k' = k then Some v else find_entry k es)"

fun erase :: "FlakeRef \<Rightarrow> Registry \<Rightarrow> Registry" where
  "erase k [] = []"
| "erase k ((k', v) # es) = (if k' = k then erase k es else (k', v) # erase k es)"

fun insert_or_assign :: "FlakeRef \<Rightarrow> FlakeRef \<Rightarrow> Registry \<Rightarrow> Registry" where
  "insert_or_assign k v [] = [(k, v)]"
| "insert_or_assign k v ((k', v') # es) =
     (if k' = k then (k', v) # es else (k', v') # insert_or_assign k v es)"

text \<open>
  \<^verbatim>\<open>it->second = v\<close> for the iterator \<^verbatim>\<open>it\<close> that \<^verbatim>\<open>find(k)\<close> returned: the entry found
  gets a new target, in place.
\<close>

fun assign_found :: "FlakeRef \<Rightarrow> FlakeRef \<Rightarrow> Registry \<Rightarrow> Registry" where
  "assign_found k v [] = []"
| "assign_found k v ((k', v') # es) =
     (if k' = k then (k', v) # es else (k', v') # assign_found k v es)"

subsection \<open>The world the commands act on\<close>

datatype fsnode = Directory | RegularFile string

text \<open>
  \<open>userRegistryFile\<close> is the persisted user registry (the file at
  \<^verbatim>\<open>getUserRegistryPath()\<close>), \<open>globalRegistry\<close> what
  \<^verbatim>\<open>evalState->getGlobalFlakeRegistry()\<close> returns, \<open>files\<close> the file system seen by
  \<^verbatim>\<open>pathExists\<close> and \<^verbatim>\<open>writeFile\<close>.  Two logs record the effects the properties speak
  about: \<open>registryWrites\<close> gets the registry of every \<^verbatim>\<open>writeRegistry\<close> call,
  \<open>lockFileUpdates\<close> the arguments of every \<^verbatim>\<open>updateLockFile\<close> call.
\<close>

record world =
  userRegistryFile :: Registry
  globalRegistry :: Registry
  registryWrites :: "Registry list"
  lockFileUpdates :: "(FlakeRef \<times> bool) list"
  files :: "string \<Rightarrow> fsnode option"

text \<open>
  Modelled from the spec: \<^verbatim>\<open>readRegistry\<close> and \<^verbatim>\<open>writeRegistry\<close> (the persistence
  interface, not in the file).  The specification asks that saving then loading
  reproduces the entries and their order, so the persisted form is the sequence of
  records itself.
\<close>

definition readRegistry :: "world \<Rightarrow> Registry" where
  "readRegistry w = userRegistryFile w"

definition writeRegistry :: "Registry \<Rightarrow> world \<Rightarrow> world" where
  "writeRegistry r w = w\<lparr>userRegistryFile := r, registryWrites := registryWrites w @ [r]\<rparr>"

subsection \<open>Collaborators\<close>

text \<open>
  Code the commands call and the file does not contain, taken as parameters:
  \<^item> \<open>mkFlakeRef\<close> is the constructor of \<^verbatim>\<open>FlakeRef\<close>: \<open>mkFlakeRef uri True\<close> is the
    call \<^verbatim>\<open>FlakeRef(uri, true)\<close> and \<open>mkFlakeRef uri False\<close> the call with one argument,
    \<^verbatim>\<open>FlakeRef(uri)\<close>.  It may throw.
  \<^item> \<open>getFlake w r b\<close> is \<^verbatim>\<open>getFlake(*evalState, r, b)\<close>, evaluated in the world \<open>w\<close>
    (the evaluator reads the registries); it may throw.
  \<^item> \<open>resolveFlake w r\<close> is \<^verbatim>\<open>resolveFlake(*evalState, r, getLockFileMode())\<close>
    after \<^verbatim>\<open>addRegistryOverrides\<close>; it may throw.
  \<^item> \<open>updateLockFile r b\<close> is how \<^verbatim>\<open>updateLockFile(*evalState, r, b)\<close> ends: \<open>None\<close>
    when it returns, the exception when it throws.
  \<^item> \<open>absPath\<close> is \<^verbatim>\<open>absPath\<close> (it depends on the current directory) and
    \<open>flakeTemplate\<close> the text of \<^verbatim>\<open>flake-template.nix.gen.hh\<close>.
\<close>

record collaborators =
  mkFlakeRef :: "string \<Rightarrow> bool \<Rightarrow> error + FlakeRef"
  getFlake :: "world \<Rightarrow> FlakeRef \<Rightarrow> bool \<Rightarrow> error + Flake"
  resolveFlake :: "world \<Rightarrow> FlakeRef \<Rightarrow> error + ResolvedFlake"
  updateLockFile :: "FlakeRef \<Rightarrow> bool \<Rightarrow> error option"
  absPath :: "string \<Rightarrow> string"
  flakeTemplate :: string

text \<open>
  A command returns the exception it ended with, if any, and the world it leaves.
\<close>

type_synonym outcome = "error option \<times> world"

section \<open>Registry commands\<close>

text \<open>\<^verbatim>\<open>CmdFlakeAdd::run\<close>, with the command's two arguments.\<close>

definition CmdFlakeAdd_run :: "collaborators \<Rightarrow> string \<Rightarrow> string \<Rightarrow> world \<Rightarrow> outcome" where
  "CmdFlakeAdd_run c als uri w =
     (case mkFlakeRef c als False of
        Inl e \<Rightarrow> (Some e, w)
      | Inr aliasRef \<Rightarrow>
          (let userRegistry = readRegistry w;
               userRegistry1 = erase aliasRef userRegistry
           in case mkFlakeRef c uri False of
                Inl e \<Rightarrow> (Some e, w)
              | Inr target \<Rightarrow>
                  (None, writeRegistry (insert_or_assign aliasRef target userRegistry1) w)))"

text \<open>\<^verbatim>\<open>CmdFlakeRemove::run\<close>.\<close>

definition CmdFlakeRemove_run :: "collaborators \<Rightarrow> string \<Rightarrow> world \<Rightarrow> outcome" where
  "CmdFlakeRemove_run c als w =
     (let userRegistry = readRegistry w
      in case mkFlakeRef c als False of
           Inl e \<Rightarrow> (Some e, w)
         | Inr aliasRef \<Rightarrow> (None, writeRegistry (erase aliasRef userRegistry) w))"

text \<open>
  \<^verbatim>\<open>CmdFlakePin::run\<close>.  \<^verbatim>\<open>userRegistry\<close> is a copy of the registry read, so the
  assignment through \<^verbatim>\<open>it\<close> and \<^verbatim>\<open>insert_or_assign\<close> change the copy, which
  \<^verbatim>\<open>writeRegistry\<close> then persists.  The source builds \<^verbatim>\<open>FlakeRef(alias)\<close> at each use
  (the last time by implicit conversion of the key of \<^verbatim>\<open>insert_or_assign\<close>); the
  constructor is a function of its arguments, so it is bound once here.
\<close>

definition CmdFlakePin_run :: "collaborators \<Rightarrow> string \<Rightarrow> world \<Rightarrow> outcome" where
  "CmdFlakePin_run c als w =
     (let userRegistry = readRegistry w
      in case mkFlakeRef c als False of
           Inl e \<Rightarrow> (Some e, w)
         | Inr aliasRef \<Rightarrow>
             (case find_entry aliasRef userRegistry of
                Some target \<Rightarrow>
                  (case getFlake c w target True of
                     Inl e \<Rightarrow> (Some e, w)
                   | Inr fl \<Rightarrow>
                       (None,
                        writeRegistry
                          (assign_found aliasRef (resolvedRef (sourceInfo fl)) userRegistry) w))
              | None \<Rightarrow>
                  (case find_entry aliasRef (globalRegistry w) of
                     Some target \<Rightarrow>
                       (case getFlake c w target True of
                          Inl e \<Rightarrow> (Some e, w)
                        | Inr fl \<Rightarrow>
                            (let newRef = resolvedRef (sourceInfo fl)
                             in (None,
                                 writeRegistry
                                   (insert_or_assign aliasRef newRef userRegistry) w)))
                   | None \<Rightarrow> (Some (UnknownAliasError als), w))))"

section \<open>Commands on a flake reference\<close>

text \<open>
  \<^verbatim>\<open>std::string::find(ch)\<close>: the index of the first occurrence, \<open>None\<close> for
  \<^verbatim>\<open>npos\<close>.
\<close>

fun string_find :: "char \<Rightarrow> string \<Rightarrow> nat option" where
  "string_find ch [] = None"
| "string_find ch (x # xs) = (if x = ch then Some 0 else map_option Suc (string_find ch xs))"

text \<open>
  \<^verbatim>\<open>FlakeCommand\<close>: the member \<^verbatim>\<open>flakeUri\<close> is initialised to \<^verbatim>\<open>"."\<close> and registered
  as an optional argument, so it keeps its initial value when no argument is given.
\<close>

definition flakeUri_default :: string where
  "flakeUri_default = ''.''"

definition FlakeCommand_flakeUri :: "string option \<Rightarrow> string" where
  "FlakeCommand_flakeUri arg = (case arg of None \<Rightarrow> flakeUri_default | Some s \<Rightarrow> s)"

definition getFlakeRef :: "collaborators \<Rightarrow> string \<Rightarrow> error + FlakeRef" where
  "getFlakeRef c flakeUri =
     (if string_find CHR ''/'' flakeUri \<noteq> None \<or> flakeUri = ''.''
      then mkFlakeRef c flakeUri True
      else mkFlakeRef c flakeUri False)"

text \<open>
  \<^verbatim>\<open>CmdFlakeUpdate::run\<close>.  \<^verbatim>\<open>std::get_if<FlakeRef::IsPath>\<close> is the case distinction
  on \<open>data\<close>.
\<close>

definition CmdFlakeUpdate_run :: "collaborators \<Rightarrow> string \<Rightarrow> world \<Rightarrow> outcome" where
  "CmdFlakeUpdate_run c flakeUri w =
     (case getFlakeRef c flakeUri of
        Inl e \<Rightarrow> (Some e, w)
      | Inr flakeRef \<Rightarrow>
          (case data flakeRef of
             IsPath p \<Rightarrow>
               (updateLockFile c flakeRef True,
                w\<lparr>lockFileUpdates := lockFileUpdates w @ [(flakeRef, True)]\<rparr>)
           | _ \<Rightarrow> (Some (NotUpdatableError flakeRef), w)))"

subsection \<open>Listing the dependencies\<close>

text \<open>What \<^verbatim>\<open>CmdFlakeDeps::run\<close> prints: the calls of the two printing functions.\<close>

datatype printed = PrintNonFlakeInfo NonFlake | PrintFlakeInfo Flake

text \<open>The first inner loop: every non-flake dependency is printed.\<close>

fun print_nonFlakeDeps :: "NonFlake list \<Rightarrow> printed list \<Rightarrow> printed list" where
  "print_nonFlakeDeps [] out = out"
| "print_nonFlakeDeps (nonFlake # rest) out =
     print_nonFlakeDeps rest (out @ [PrintNonFlakeInfo nonFlake])"

text \<open>
  The second inner loop: the flake of every flake dependency is printed and the
  dependency pushed on \<^verbatim>\<open>todo\<close>.
\<close>

fun visit_flakeDeps ::
  "(string \<times> ResolvedFlake) list \<Rightarrow> printed list \<times> ResolvedFlake list
     \<Rightarrow> printed list \<times> ResolvedFlake list" where
  "visit_flakeDeps [] (out, todo) = (out, todo)"
| "visit_flakeDeps (info # rest) (out, todo) =
     visit_flakeDeps rest (out @ [PrintFlakeInfo (flake (snd info))], todo @ [snd info])"

text \<open>
  The \<^verbatim>\<open>while (!todo.empty())\<close> loop: the queue is a list, its front the head.  The
  loop ends because the nodes in the queue, with all the nodes below them, get fewer.
\<close>

function deps_loop :: "ResolvedFlake list \<Rightarrow> printed list \<Rightarrow> printed list" where
  "deps_loop [] out = out"
| "deps_loop (resFlake # todo) out =
     (let out1 = print_nonFlakeDeps (nonFlakeDeps resFlake) out;
          (out2, todo2) = visit_flakeDeps (flakeDeps resFlake) (out1, todo)
      in deps_loop todo2 out2)"
  by pat_completeness auto
termination
proof (relation "measure (\<lambda>(todo, out). sum_list (map size todo))")
  show "wf (measure (\<lambda>(todo, out). sum_list (map size todo)))" by simp
next
  fix resFlake :: ResolvedFlake and todo out out1 x out2 todo2
  assume x: "x = visit_flakeDeps (flakeDeps resFlake) (out1, todo)"
    and p: "(out2, todo2) = x"
  have queue: "snd (visit_flakeDeps ds (acc, q)) = q @ map snd ds" for ds acc q
    by (induction ds arbitrary: acc q) auto
  have children: "sum_list (map size (map snd ds)) \<le> size_list (size_prod (\<lambda>_. 0) size) ds"
    for ds :: "(string \<times> ResolvedFlake) list"
    by (induction ds) auto
  have "todo2 = todo @ map snd (flakeDeps resFlake)"
    using queue[of "flakeDeps resFlake" out1 todo] x p by (metis snd_conv)
  moreover have "sum_list (map size (map snd (flakeDeps resFlake))) < size resFlake"
    using children[of "flakeDeps resFlake"] by (cases resFlake) simp
  ultimately show "((todo2, out2), resFlake # todo, out)
       \<in> measure (\<lambda>(todo, out). sum_list (map size todo))"
    by simp
qed

text \<open>
  \<^verbatim>\<open>CmdFlakeDeps::run\<close>: the root is resolved and pushed, then the loop runs.  The
  result is the exception, if any, and what was printed.
\<close>

definition CmdFlakeDeps_run ::
  "collaborators \<Rightarrow> string \<Rightarrow> world \<Rightarrow> error option \<times> printed list" where
  "CmdFlakeDeps_run c flakeUri w =
     (case getFlakeRef c flakeUri of
        Inl e \<Rightarrow> (Some e, [])
      | Inr flakeRef \<Rightarrow>
          (case resolveFlake c w flakeRef of
             Inl e \<Rightarrow> (Some e, [])
           | Inr root \<Rightarrow> (None, deps_loop [root] [])))"

section \<open>Creating a skeleton flake\<close>

definition pathExists :: "world \<Rightarrow> string \<Rightarrow> bool" where
  "pathExists w p = (files w p \<noteq> None)"

definition writeFile :: "string \<Rightarrow> string \<Rightarrow> world \<Rightarrow> world" where
  "writeFile p s w = w\<lparr>files := (files w)(p \<mapsto> RegularFile s)\<rparr>"

text \<open>\<^verbatim>\<open>CmdFlakeInit::run\<close>.\<close>

definition CmdFlakeInit_run :: "collaborators \<Rightarrow> world \<Rightarrow> outcome" where
  "CmdFlakeInit_run c w =
     (let flakeDir = absPath c ''.''
      in if \<not> pathExists w (flakeDir @ ''/.git'')
         then (Some (NotGitRepositoryError flakeDir), w)
         else
           (let flakePath = flakeDir @ ''/flake.nix''
            in if pathExists w flakePath
               then (Some (FileExistsError flakePath), w)
               else (None, writeFile flakePath (flakeTemplate c) w)))"

section \<open>Breadth-first order, as the specification words it\<close>

text \<open>
  The specification of the listing, independent of the queue: what one node contributes
  (its non-flake dependencies, then the flakes of its flake dependencies), the nodes
  \<open>n\<close> levels below a list of nodes, and the listing level by level.
\<close>

definition node_output :: "ResolvedFlake \<Rightarrow> printed list" where
  "node_output r =
     map PrintNonFlakeInfo (nonFlakeDeps r) @
     map (\<lambda>info. PrintFlakeInfo (flake (snd info))) (flakeDeps r)"

definition children :: "ResolvedFlake \<Rightarrow> ResolvedFlake list" where
  "children r = map snd (flakeDeps r)"

fun level :: "nat \<Rightarrow> ResolvedFlake list \<Rightarrow> ResolvedFlake list" where
  "level 0 rs = rs"
| "level (Suc n) rs = level n (concat (map children rs))"

fun height :: "ResolvedFlake \<Rightarrow> nat" where
  "height (ResolvedFlake f ds nfs) = Suc (fold max (map (\<lambda>info. height (snd info)) ds) 0)"

definition breadth_first_listing :: "ResolvedFlake \<Rightarrow> printed list" where
  "breadth_first_listing root =
     concat (map (\<lambda>n. concat (map node_output (level n [root]))) [0..<height root])"

section \<open>Concrete inputs\<close>

text \<open>
  References of the three kinds, a flake resolved at a reference, and one choice of the
  collaborators: the constructor refuses the empty string, reads its argument as a path
  when called with \<open>True\<close>, as a URI when it holds a colon and as an alias otherwise;
  the evaluator resolves a URI to the same URI at revision \<open>0a1b2c\<close>, a path to itself,
  and fails on an alias.
\<close>

definition alias_ref :: "string \<Rightarrow> FlakeRef" where
  "alias_ref s = \<lparr>data = IsAlias s, ref = None, rev_opt = None\<rparr>"

definition uri_ref :: "string \<Rightarrow> string option \<Rightarrow> FlakeRef" where
  "uri_ref s r = \<lparr>data = IsDirectURI s, ref = None, rev_opt = r\<rparr>"

definition path_ref :: "string \<Rightarrow> FlakeRef" where
  "path_ref s = \<lparr>data = IsPath s, ref = None, rev_opt = None\<rparr>"

definition flake_at :: "string \<Rightarrow> FlakeRef \<Rightarrow> Flake" where
  "flake_at name r =
     \<lparr>flake_id = name, description = ''an example flake'', epoch = 2019,
      sourceInfo = \<lparr>resolvedRef = r, revCount = None, storePath = ''/nix/store/example''\<rparr>\<rparr>"

definition example_graph :: ResolvedFlake where
  "example_graph =
     ResolvedFlake (flake_at ''root'' (path_ref ''.''))
       [(''depA'',
         ResolvedFlake (flake_at ''depA'' (uri_ref ''git:A'' None))
           [(''depC'', ResolvedFlake (flake_at ''depC'' (uri_ref ''git:C'' None)) [] [])]
           [\<lparr>nonFlake_alias = ''data'',
             nonFlake_sourceInfo =
               \<lparr>resolvedRef = uri_ref ''git:D'' None, revCount = None,
                storePath = ''/nix/store/data''\<rparr>\<rparr>]),
        (''depB'', ResolvedFlake (flake_at ''depB'' (uri_ref ''git:B'' None)) [] [])]
       []"

definition example_collaborators :: collaborators where
  "example_collaborators =
     \<lparr>mkFlakeRef = (\<lambda>s b.
        if s = [] then Inl (CollaboratorError ''not a valid flake reference'')
        else if b then Inr (path_ref s)
        else if CHR '':'' \<in> set s then Inr (uri_ref s None)
        else Inr (alias_ref s)),
      getFlake = (\<lambda>w r b.
        case data r of
          IsDirectURI u \<Rightarrow> Inr (flake_at ''example'' (r\<lparr>rev_opt := Some ''0a1b2c''\<rparr>))
        | IsPath p \<Rightarrow> Inr (flake_at ''example'' r)
        | IsAlias a \<Rightarrow> Inl (CollaboratorError ''cannot find flake'')),
      resolveFlake = (\<lambda>w r. Inr example_graph),
      updateLockFile = (\<lambda>r b. None),
      absPath = (\<lambda>p. ''/home/user/project''),
      flakeTemplate = ''{ name = 0; }''\<rparr>"

definition example_world :: "Registry \<Rightarrow> Registry \<Rightarrow> world" where
  "example_world user global =
     \<lparr>userRegistryFile = user, globalRegistry = global, registryWrites = [],
      lockFileUpdates = [], files = (\<lambda>p. None)\<rparr>"

definition example_files :: "string list \<Rightarrow> world" where
  "example_files ps =
     \<lparr>userRegistryFile = [], globalRegistry = [], registryWrites = [], lockFileUpdates = [],
      files = (\<lambda>p. if p \<in> set ps then Some Directory else None)\<rparr>"

section \<open>Properties of the registry container\<close>

lemma find_entry_erase_same: "find_entry k (erase k es) = None"
  by (induction es) auto

lemma find_entry_erase_other: "k' \<noteq> k \<Longrightarrow> find_entry k' (erase k es) = find_entry k' es"
  by (induction es) auto

lemma erase_absent: "find_entry k es = None \<Longrightarrow> erase k es = es"
  by (induction es) (auto split: if_splits)

lemma insert_or_assign_absent:
  "find_entry k es = None \<Longrightarrow> insert_or_assign k v es = es @ [(k, v)]"
  by (induction es) (auto split: if_splits)

lemma find_entry_insert_or_assign:
  "find_entry k' (insert_or_assign k v es) = (if k' = k then Some v else find_entry k' es)"
  by (induction es) auto

lemma erase_append_singleton: "erase k (es @ [(k, v)]) = erase k es"
  by (induction es) auto

lemma erase_idem: "erase k (erase k es) = erase k es"
  by (simp add: erase_absent find_entry_erase_same)

lemma assign_found_same: "find_entry k es = Some v \<Longrightarrow> assign_found k v es = es"
  by (induction es) (auto split: if_splits)

lemma find_entry_assign_found:
  "find_entry k' (assign_found k v es) =
     (if k' = k \<and> find_entry k es \<noteq> None then Some v else find_entry k' es)"
  by (induction es) (auto split: if_splits)

lemma keys_assign_found: "map fst (assign_found k v es) = map fst es"
  by (induction es) auto

text \<open>
  The container read as a mapping: the three operations are lookup, removal and update
  of \<open>find_entry\<close> seen as a partial function, whatever the order of the records.
\<close>

lemma find_entry_map_of: "find_entry k es = map_of es k"
  by (induction es) auto

lemma erase_as_map: "(\<lambda>k'. find_entry k' (erase k es)) = (\<lambda>k'. find_entry k' es)(k := None)"
  by (rule ext) (simp add: find_entry_erase_same find_entry_erase_other)

lemma insert_or_assign_as_map:
  "(\<lambda>k'. find_entry k' (insert_or_assign k v es)) = (\<lambda>k'. find_entry k' es)(k \<mapsto> v)"
  by (rule ext) (simp add: find_entry_insert_or_assign)

lemma keys_erase: "map fst (erase k es) = filter (\<lambda>k'. k' \<noteq> k) (map fst es)"
  by (induction es) auto

lemma keys_insert_or_assign:
  "map fst (insert_or_assign k v es) =
     (if k \<in> set (map fst es) then map fst es else map fst es @ [k])"
  by (induction es) force+

lemma keys_distinct_erase: "distinct (map fst es) \<Longrightarrow> distinct (map fst (erase k es))"
  by (simp add: keys_erase)

lemma keys_distinct_insert_or_assign:
  "distinct (map fst es) \<Longrightarrow> distinct (map fst (insert_or_assign k v es))"
  by (simp add: keys_insert_or_assign)

section \<open>Properties of the argument and of the queue loop\<close>

lemma string_find_None: "string_find ch s = None \<longleftrightarrow> ch \<notin> set s"
  by (induction s) auto

lemma string_find_Some:
  "string_find ch s = Some i \<Longrightarrow> i < length s \<and> s ! i = ch \<and> ch \<notin> set (take i s)"
proof (induction s arbitrary: i)
  case Nil
  then show ?case by simp
next
  case (Cons x xs)
  show ?case
  proof (cases "x = ch")
    case True
    with Cons.prems show ?thesis by simp
  next
    case False
    with Cons.prems obtain j where j: "string_find ch xs = Some j" "i = Suc j" by auto
    from Cons.IH[OF j(1)] False j(2) show ?thesis by simp
  qed
qed

lemma getFlakeRef_flag:
  "getFlakeRef c flakeUri = mkFlakeRef c flakeUri (CHR ''/'' \<in> set flakeUri \<or> flakeUri = ''.'')"
  by (simp add: getFlakeRef_def string_find_None)

text \<open>
  What the file decides about the argument: which call of the constructor is made, and
  that the argument is \<^verbatim>\<open>.\<close> when none is given.  The kind of the reference that
  the constructor builds is decided outside the file.
\<close>

lemma FlakeCommand_flakeUri_given: "FlakeCommand_flakeUri (Some s) = s"
  by (simp add: FlakeCommand_flakeUri_def)

lemma FlakeCommand_flakeUri_absent: "FlakeCommand_flakeUri None = ''.''"
  by (simp add: FlakeCommand_flakeUri_def flakeUri_default_def)

lemma getFlakeRef_absent: "getFlakeRef c (FlakeCommand_flakeUri None) = mkFlakeRef c ''.'' True"
  by (simp add: getFlakeRef_def FlakeCommand_flakeUri_absent)

lemma print_nonFlakeDeps_eq: "print_nonFlakeDeps nfs out = out @ map PrintNonFlakeInfo nfs"
  by (induction nfs arbitrary: out) auto

lemma visit_flakeDeps_eq:
  "visit_flakeDeps ds (out, todo) =
     (out @ map (\<lambda>info. PrintFlakeInfo (flake (snd info))) ds, todo @ map snd ds)"
  by (induction ds arbitrary: out todo) auto

lemma deps_loop_step:
  "deps_loop (r # todo) out = deps_loop (todo @ children r) (out @ node_output r)"
  by (simp add: print_nonFlakeDeps_eq visit_flakeDeps_eq node_output_def children_def)

lemma deps_loop_front:
  "deps_loop (q1 @ q2) out =
     deps_loop (q2 @ concat (map children q1)) (out @ concat (map node_output q1))"
proof (induction q1 arbitrary: q2 out)
  case Nil
  then show ?case by simp
next
  case (Cons r q1)
  have "deps_loop ((r # q1) @ q2) out = deps_loop (q1 @ (q2 @ children r)) (out @ node_output r)"
    by (simp add: deps_loop_step del: deps_loop.simps)
  also have "\<dots> = deps_loop ((q2 @ children r) @ concat (map children q1))
                     ((out @ node_output r) @ concat (map node_output q1))"
    by (rule Cons.IH)
  finally show ?case by simp
qed

lemma fold_max_ge: "(m::nat) \<le> fold max xs m"
  by (induction xs arbitrary: m) (auto intro: order_trans[OF max.cobounded2])

lemma fold_max_mem: "x \<in> set xs \<Longrightarrow> (x::nat) \<le> fold max xs m"
proof (induction xs arbitrary: m)
  case Nil
  then show ?case by simp
next
  case (Cons y ys)
  show ?case
  proof (cases "x = y")
    case True
    have "max y m \<le> fold max ys (max y m)" by (rule fold_max_ge)
    with True show ?thesis by simp
  next
    case False
    with Cons show ?thesis by simp
  qed
qed

lemma height_children: "r' \<in> set (children r) \<Longrightarrow> height r' < height r"
proof (cases r)
  case (ResolvedFlake f ds nfs)
  assume "r' \<in> set (children r)"
  then have "height r' \<in> set (map (\<lambda>info. height (snd info)) ds)"
    using ResolvedFlake by (auto simp: children_def)
  then have "height r' \<le> fold max (map (\<lambda>info. height (snd info)) ds) 0"
    by (rule fold_max_mem)
  then show ?thesis using ResolvedFlake by simp
qed

lemma height_pos: "0 < height r"
  by (cases r) simp

lemma deps_loop_levels:
  "\<forall>r \<in> set q. height r \<le> h \<Longrightarrow>
   deps_loop q out = out @ concat (map (\<lambda>n. concat (map node_output (level n q))) [0..<h])"
proof (induction h arbitrary: q out)
  case 0
  have "q = []"
  proof (cases q)
    case (Cons r rs)
    with 0 have "height r \<le> 0" by simp
    with height_pos[of r] show ?thesis by simp
  qed simp
  then show ?case by simp
next
  case (Suc h)
  have below: "\<forall>r \<in> set (concat (map children q)). height r \<le> h"
  proof
    fix r' assume "r' \<in> set (concat (map children q))"
    then obtain r where r: "r \<in> set q" "r' \<in> set (children r)" by auto
    from r(2) have "height r' < height r" by (rule height_children)
    moreover from Suc.prems r(1) have "height r \<le> Suc h" by simp
    ultimately show "height r' \<le> h" by simp
  qed
  have "deps_loop q out = deps_loop (concat (map children q)) (out @ concat (map node_output q))"
    using deps_loop_front[of q "[]" out] by simp
  also have "\<dots> = (out @ concat (map node_output q)) @
      concat (map (\<lambda>n. concat (map node_output (level n (concat (map children q))))) [0..<h])"
    by (rule Suc.IH[OF below])
  also have "\<dots> = out @ concat (map (\<lambda>n. concat (map node_output (level n q))) [0..<Suc h])"
    by (simp add: upt_conv_Cons map_Suc_upt[symmetric] comp_def del: upt_Suc)
  finally show ?case .
qed

lemma deps_loop_listing: "deps_loop [root] [] = breadth_first_listing root"
  using deps_loop_levels[of "[root]" "height root" "[]"]
  by (simp add: breadth_first_listing_def)

section \<open>The claims\<close>

lemmas example_defs =
  example_collaborators_def example_world_def example_files_def alias_ref_def uri_ref_def
  path_ref_def flake_at_def

subsection \<open>Pin\<close>

text \<open>
  Claim C1.  Let \<open>aliasRef\<close> be the reference the alias parses to.  \<^verbatim>\<open>pin\<close> has three
  cases, which exclude each other.
  \<^item> The alias has an entry in the user registry and its target resolves to \<open>fl\<close>: the
    command returns normally and persists the user registry with the target of that
    entry overwritten, in place, by the resolved reference of \<open>fl\<close>; the keys and every
    other entry stay as they were.
  \<^item> The alias has no entry in the user registry, has one in the global registry, and that
    target resolves to \<open>fl\<close>: the command returns normally and persists the user
    registry with one new entry, from the alias to the resolved reference.
  \<^item> The alias has an entry in neither registry: the command throws the unknown-alias
    error and leaves the world as it was, so nothing is persisted.

  The resolved reference is what the evaluator returns in
  \<^verbatim>\<open>sourceInfo.resolvedRef\<close>.  When the evaluator throws, the command ends with that
  exception and the world is unchanged as well.
\<close>

theorem C1_pin_three_cases:
  assumes "mkFlakeRef c als False = Inr aliasRef"
  shows "(find_entry aliasRef (userRegistryFile w) = Some target
          \<and> getFlake c w target True = Inr fl \<longrightarrow>
            CmdFlakePin_run c als w =
              (None, writeRegistry
                 (assign_found aliasRef (resolvedRef (sourceInfo fl)) (userRegistryFile w)) w)
            \<and> find_entry aliasRef
                 (assign_found aliasRef (resolvedRef (sourceInfo fl)) (userRegistryFile w))
                = Some (resolvedRef (sourceInfo fl))
            \<and> map fst (assign_found aliasRef (resolvedRef (sourceInfo fl)) (userRegistryFile w))
                = map fst (userRegistryFile w)
            \<and> (\<forall>k. k \<noteq> aliasRef \<longrightarrow>
                 find_entry k
                   (assign_found aliasRef (resolvedRef (sourceInfo fl)) (userRegistryFile w))
                  = find_entry k (userRegistryFile w)))
     \<and> (find_entry aliasRef (userRegistryFile w) = None
          \<and> find_entry aliasRef (globalRegistry w) = Some target
          \<and> getFlake c w target True = Inr fl \<longrightarrow>
            CmdFlakePin_run c als w =
              (None, writeRegistry
                 (userRegistryFile w @ [(aliasRef, resolvedRef (sourceInfo fl))]) w))
     \<and> (find_entry aliasRef (userRegistryFile w) = None
          \<and> find_entry aliasRef (globalRegistry w) = None \<longrightarrow>
            CmdFlakePin_run c als w = (Some (UnknownAliasError als), w))
     \<and> ((find_entry aliasRef (userRegistryFile w) = Some target
           \<or> find_entry aliasRef (userRegistryFile w) = None
              \<and> find_entry aliasRef (globalRegistry w) = Some target)
          \<and> getFlake c w target True = Inl e \<longrightarrow>
            CmdFlakePin_run c als w = (Some e, w))"
  using assms
  by (auto simp: CmdFlakePin_run_def readRegistry_def Let_def find_entry_assign_found
      keys_assign_found insert_or_assign_absent)

theorem C1_pin_three_cases_witness:
  "CmdFlakePin_run example_collaborators ''foo''
     (example_world [(alias_ref ''foo'', uri_ref ''git:A'' None)]
        [(alias_ref ''bar'', uri_ref ''git:C'' None)])
     = (None,
        writeRegistry [(alias_ref ''foo'', uri_ref ''git:A'' (Some ''0a1b2c''))]
          (example_world [(alias_ref ''foo'', uri_ref ''git:A'' None)]
             [(alias_ref ''bar'', uri_ref ''git:C'' None)]))
   \<and> CmdFlakePin_run example_collaborators ''bar''
       (example_world [(alias_ref ''foo'', uri_ref ''git:A'' None)]
          [(alias_ref ''bar'', uri_ref ''git:C'' None)])
     = (None,
        writeRegistry
          [(alias_ref ''foo'', uri_ref ''git:A'' None),
           (alias_ref ''bar'', uri_ref ''git:C'' (Some ''0a1b2c''))]
          (example_world [(alias_ref ''foo'', uri_ref ''git:A'' None)]
             [(alias_ref ''bar'', uri_ref ''git:C'' None)]))
   \<and> CmdFlakePin_run example_collaborators ''baz''
       (example_world [(alias_ref ''foo'', uri_ref ''git:A'' None)]
          [(alias_ref ''bar'', uri_ref ''git:C'' None)])
     = (Some (UnknownAliasError ''baz''),
        example_world [(alias_ref ''foo'', uri_ref ''git:A'' None)]
          [(alias_ref ''bar'', uri_ref ''git:C'' None)])"
proof -
  let ?w = "example_world [(alias_ref ''foo'', uri_ref ''git:A'' None)]
              [(alias_ref ''bar'', uri_ref ''git:C'' None)]"
  have foo: "mkFlakeRef example_collaborators ''foo'' False = Inr (alias_ref ''foo'')"
    and bar: "mkFlakeRef example_collaborators ''bar'' False = Inr (alias_ref ''bar'')"
    and baz: "mkFlakeRef example_collaborators ''baz'' False = Inr (alias_ref ''baz'')"
    by (simp_all add: example_collaborators_def)
  show ?thesis
    using C1_pin_three_cases[OF foo, where w = ?w and target = "uri_ref ''git:A'' None"
        and fl = "flake_at ''example'' (uri_ref ''git:A'' (Some ''0a1b2c''))"]
      C1_pin_three_cases[OF bar, where w = ?w and target = "uri_ref ''git:C'' None"
        and fl = "flake_at ''example'' (uri_ref ''git:C'' (Some ''0a1b2c''))"]
      C1_pin_three_cases[OF baz, where w = ?w]
    by (simp add: example_defs)
qed

text \<open>
  Claim C6.  \<^verbatim>\<open>pin\<close> leaves the global registry as it was, whatever branch it takes.
  When the alias has an entry only in the global registry (and its target resolves), the
  command returns normally and the persisted user registry is the former one with one
  new entry, from the alias to the resolved reference; every other alias keeps its
  target.
\<close>

theorem C6_pin_global_only:
  "globalRegistry (snd (CmdFlakePin_run c als w)) = globalRegistry w
   \<and> (mkFlakeRef c als False = Inr aliasRef
        \<and> find_entry aliasRef (userRegistryFile w) = None
        \<and> find_entry aliasRef (globalRegistry w) = Some target
        \<and> getFlake c w target True = Inr fl \<longrightarrow>
          fst (CmdFlakePin_run c als w) = None
          \<and> userRegistryFile (snd (CmdFlakePin_run c als w))
              = userRegistryFile w @ [(aliasRef, resolvedRef (sourceInfo fl))]
          \<and> find_entry aliasRef (userRegistryFile (snd (CmdFlakePin_run c als w)))
              = Some (resolvedRef (sourceInfo fl))
          \<and> (\<forall>k. k \<noteq> aliasRef \<longrightarrow>
                find_entry k (userRegistryFile (snd (CmdFlakePin_run c als w)))
                  = find_entry k (userRegistryFile w)))"
proof -
  let ?c = "resolvedRef (sourceInfo fl)"
  have frame: "globalRegistry (snd (CmdFlakePin_run c als w)) = globalRegistry w"
    by (simp add: CmdFlakePin_run_def readRegistry_def Let_def writeRegistry_def
        split: sum.splits option.splits)
  have inserted:
    "fst (CmdFlakePin_run c als w) = None
     \<and> userRegistryFile (snd (CmdFlakePin_run c als w)) = userRegistryFile w @ [(aliasRef, ?c)]
     \<and> find_entry aliasRef (userRegistryFile (snd (CmdFlakePin_run c als w))) = Some ?c
     \<and> (\<forall>k. k \<noteq> aliasRef \<longrightarrow>
           find_entry k (userRegistryFile (snd (CmdFlakePin_run c als w)))
             = find_entry k (userRegistryFile w))"
    if h: "mkFlakeRef c als False = Inr aliasRef
        \<and> find_entry aliasRef (userRegistryFile w) = None
        \<and> find_entry aliasRef (globalRegistry w) = Some target
        \<and> getFlake c w target True = Inr fl"
  proof -
    from h have run: "CmdFlakePin_run c als w =
        (None, writeRegistry (insert_or_assign aliasRef ?c (userRegistryFile w)) w)"
      by (simp add: CmdFlakePin_run_def readRegistry_def Let_def)
    from h have app: "userRegistryFile w @ [(aliasRef, ?c)]
        = insert_or_assign aliasRef ?c (userRegistryFile w)"
      by (simp add: insert_or_assign_absent)
    show ?thesis
      unfolding run app by (simp add: writeRegistry_def find_entry_insert_or_assign)
  qed
  from frame inserted show ?thesis by blast
qed

theorem C6_pin_global_only_witness:
  "userRegistryFile (snd (CmdFlakePin_run example_collaborators ''foo''
      (example_world [] [(alias_ref ''foo'', uri_ref ''git:C'' None)])))
     = [(alias_ref ''foo'', uri_ref ''git:C'' (Some ''0a1b2c''))]
   \<and> globalRegistry (snd (CmdFlakePin_run example_collaborators ''foo''
        (example_world [] [(alias_ref ''foo'', uri_ref ''git:C'' None)])))
     = [(alias_ref ''foo'', uri_ref ''git:C'' None)]"
  using C6_pin_global_only[where c = example_collaborators and als = "''foo''"
      and aliasRef = "alias_ref ''foo''"
      and w = "example_world [] [(alias_ref ''foo'', uri_ref ''git:C'' None)]"
      and target = "uri_ref ''git:C'' None"
      and fl = "flake_at ''example'' (uri_ref ''git:C'' (Some ''0a1b2c''))"]
  by (simp add: example_defs)

text \<open>
  Claim C7.  Suppose a first \<^verbatim>\<open>pin\<close> of the alias returned normally and left the world
  \<open>w1\<close>, and that in \<open>w1\<close> the evaluator resolves the pinned target to itself (nothing
  changed upstream).  Then the alias has an entry in the user registry of \<open>w1\<close>, a second
  \<^verbatim>\<open>pin\<close> returns normally, and the user registry it persists is the one the first
  \<^verbatim>\<open>pin\<close> persisted.
\<close>

theorem C7_pin_idempotent:
  assumes first: "CmdFlakePin_run c als w = (None, w1)"
    and key: "mkFlakeRef c als False = Inr aliasRef"
    and stable: "\<forall>pinned. find_entry aliasRef (userRegistryFile w1) = Some pinned \<longrightarrow>
        (\<exists>fl'. getFlake c w1 pinned True = Inr fl' \<and> resolvedRef (sourceInfo fl') = pinned)"
  shows "find_entry aliasRef (userRegistryFile w1) \<noteq> None
     \<and> fst (CmdFlakePin_run c als w1) = None
     \<and> userRegistryFile (snd (CmdFlakePin_run c als w1)) = userRegistryFile w1"
proof -
  have present: "find_entry aliasRef (userRegistryFile w1) \<noteq> None"
    using first key
    by (auto simp: CmdFlakePin_run_def readRegistry_def Let_def writeRegistry_def
        find_entry_assign_found find_entry_insert_or_assign
        split: option.splits sum.splits)
  then obtain pinned where pinned: "find_entry aliasRef (userRegistryFile w1) = Some pinned"
    by auto
  with stable obtain fl' where fl': "getFlake c w1 pinned True = Inr fl'"
    "resolvedRef (sourceInfo fl') = pinned" by blast
  have "fst (CmdFlakePin_run c als w1) = None
     \<and> userRegistryFile (snd (CmdFlakePin_run c als w1)) = userRegistryFile w1"
    using key pinned fl'
    by (simp add: CmdFlakePin_run_def readRegistry_def Let_def writeRegistry_def
        assign_found_same)
  with present show ?thesis by simp
qed

theorem C7_pin_idempotent_witness:
  "CmdFlakePin_run example_collaborators ''foo''
     (example_world [] [(alias_ref ''foo'', uri_ref ''git:C'' None)])
     = (None,
        writeRegistry [(alias_ref ''foo'', uri_ref ''git:C'' (Some ''0a1b2c''))]
          (example_world [] [(alias_ref ''foo'', uri_ref ''git:C'' None)]))
   \<and> fst (CmdFlakePin_run example_collaborators ''foo''
        (writeRegistry [(alias_ref ''foo'', uri_ref ''git:C'' (Some ''0a1b2c''))]
          (example_world [] [(alias_ref ''foo'', uri_ref ''git:C'' None)]))) = None
   \<and> userRegistryFile (snd (CmdFlakePin_run example_collaborators ''foo''
        (writeRegistry [(alias_ref ''foo'', uri_ref ''git:C'' (Some ''0a1b2c''))]
          (example_world [] [(alias_ref ''foo'', uri_ref ''git:C'' None)]))))
     = [(alias_ref ''foo'', uri_ref ''git:C'' (Some ''0a1b2c''))]"
proof -
  let ?w = "example_world [] [(alias_ref ''foo'', uri_ref ''git:C'' None)]"
  let ?w1 = "writeRegistry [(alias_ref ''foo'', uri_ref ''git:C'' (Some ''0a1b2c''))] ?w"
  have first: "CmdFlakePin_run example_collaborators ''foo'' ?w = (None, ?w1)"
    by (simp add: CmdFlakePin_run_def readRegistry_def Let_def example_defs)
  have key: "mkFlakeRef example_collaborators ''foo'' False = Inr (alias_ref ''foo'')"
    by (simp add: example_collaborators_def)
  have stable: "\<forall>pinned. find_entry (alias_ref ''foo'') (userRegistryFile ?w1) = Some pinned \<longrightarrow>
      (\<exists>fl'. getFlake example_collaborators ?w1 pinned True = Inr fl'
         \<and> resolvedRef (sourceInfo fl') = pinned)"
    by (auto simp: writeRegistry_def example_defs)
  from C7_pin_idempotent[OF first key stable] first show ?thesis
    by (simp add: writeRegistry_def)
qed


subsection \<open>Add and remove\<close>

text \<open>
  Claim C5.  When the alias and the target parse, \<^verbatim>\<open>add\<close> returns normally and persists
  the user registry with every entry of the alias erased and the entry from the alias to
  the target inserted; looking the alias up in the persisted registry gives the target.
  Every other alias keeps its target.
  In every case, running \<^verbatim>\<open>add\<close> a second time with the same arguments leaves the
  persisted user registry as the first run left it.
\<close>

theorem C5_add_upsert_idempotent:
  "(mkFlakeRef c als False = Inr aliasRef \<and> mkFlakeRef c uri False = Inr target \<longrightarrow>
      find_entry aliasRef (erase aliasRef (userRegistryFile w)) = None
      \<and> CmdFlakeAdd_run c als uri w =
          (None, writeRegistry (erase aliasRef (userRegistryFile w) @ [(aliasRef, target)]) w)
      \<and> find_entry aliasRef (userRegistryFile (snd (CmdFlakeAdd_run c als uri w)))
          = Some target
      \<and> (\<forall>k. k \<noteq> aliasRef \<longrightarrow>
            find_entry k (userRegistryFile (snd (CmdFlakeAdd_run c als uri w)))
              = find_entry k (userRegistryFile w))
      \<and> registryWrites (snd (CmdFlakeAdd_run c als uri w))
          = registryWrites w @ [userRegistryFile (snd (CmdFlakeAdd_run c als uri w))])
   \<and> userRegistryFile (snd (CmdFlakeAdd_run c als uri (snd (CmdFlakeAdd_run c als uri w))))
       = userRegistryFile (snd (CmdFlakeAdd_run c als uri w))"
proof (intro conjI impI)
  assume p: "mkFlakeRef c als False = Inr aliasRef \<and> mkFlakeRef c uri False = Inr target"
  let ?es = "erase aliasRef (userRegistryFile w)"
  show absent: "find_entry aliasRef ?es = None"
    by (rule find_entry_erase_same)
  show "CmdFlakeAdd_run c als uri w = (None, writeRegistry (?es @ [(aliasRef, target)]) w)"
    using p
    by (simp add: CmdFlakeAdd_run_def readRegistry_def Let_def insert_or_assign_absent[OF absent])
  show "find_entry aliasRef (userRegistryFile (snd (CmdFlakeAdd_run c als uri w))) = Some target"
    using p
    by (simp add: CmdFlakeAdd_run_def readRegistry_def Let_def writeRegistry_def
        find_entry_insert_or_assign)
  show "registryWrites (snd (CmdFlakeAdd_run c als uri w))
          = registryWrites w @ [userRegistryFile (snd (CmdFlakeAdd_run c als uri w))]"
    using p by (simp add: CmdFlakeAdd_run_def readRegistry_def Let_def writeRegistry_def)
  show "\<forall>k. k \<noteq> aliasRef \<longrightarrow>
            find_entry k (userRegistryFile (snd (CmdFlakeAdd_run c als uri w)))
              = find_entry k (userRegistryFile w)"
    using p
    by (simp add: CmdFlakeAdd_run_def readRegistry_def Let_def writeRegistry_def
        find_entry_insert_or_assign find_entry_erase_other)
next
  show "userRegistryFile (snd (CmdFlakeAdd_run c als uri (snd (CmdFlakeAdd_run c als uri w))))
       = userRegistryFile (snd (CmdFlakeAdd_run c als uri w))"
  proof (cases "mkFlakeRef c als False")
    case (Inl e)
    then show ?thesis by (simp add: CmdFlakeAdd_run_def)
  next
    case a: (Inr aliasRef)
    show ?thesis
    proof (cases "mkFlakeRef c uri False")
      case (Inl e)
      with a show ?thesis by (simp add: CmdFlakeAdd_run_def Let_def)
    next
      case (Inr target)
      have absent: "find_entry aliasRef (erase aliasRef es) = None" for es
        by (rule find_entry_erase_same)
      show ?thesis
        using a Inr
        by (simp add: CmdFlakeAdd_run_def readRegistry_def Let_def writeRegistry_def
            insert_or_assign_absent[OF absent] erase_append_singleton erase_idem)
    qed
  qed
qed

theorem C5_add_upsert_idempotent_witness:
  "CmdFlakeAdd_run example_collaborators ''foo'' ''git:B''
     (example_world [(alias_ref ''foo'', uri_ref ''git:A'' None),
                     (alias_ref ''bar'', uri_ref ''git:C'' None)] [])
     = (None,
        writeRegistry [(alias_ref ''bar'', uri_ref ''git:C'' None),
                       (alias_ref ''foo'', uri_ref ''git:B'' None)]
          (example_world [(alias_ref ''foo'', uri_ref ''git:A'' None),
                          (alias_ref ''bar'', uri_ref ''git:C'' None)] []))
   \<and> userRegistryFile (snd (CmdFlakeAdd_run example_collaborators ''foo'' ''git:B''
        (snd (CmdFlakeAdd_run example_collaborators ''foo'' ''git:B''
           (example_world [(alias_ref ''foo'', uri_ref ''git:A'' None),
                           (alias_ref ''bar'', uri_ref ''git:C'' None)] [])))))
     = [(alias_ref ''bar'', uri_ref ''git:C'' None), (alias_ref ''foo'', uri_ref ''git:B'' None)]"
proof -
  let ?w = "example_world [(alias_ref ''foo'', uri_ref ''git:A'' None),
                           (alias_ref ''bar'', uri_ref ''git:C'' None)] []"
  have p: "mkFlakeRef example_collaborators ''foo'' False = Inr (alias_ref ''foo'')
      \<and> mkFlakeRef example_collaborators ''git:B'' False = Inr (uri_ref ''git:B'' None)"
    by (simp add: example_collaborators_def)
  note t = C5_add_upsert_idempotent[where c = example_collaborators and als = "''foo''"
      and uri = "''git:B''" and aliasRef = "alias_ref ''foo''"
      and target = "uri_ref ''git:B'' None" and w = ?w]
  from t p have run: "CmdFlakeAdd_run example_collaborators ''foo'' ''git:B'' ?w =
      (None, writeRegistry (erase (alias_ref ''foo'') (userRegistryFile ?w)
                              @ [(alias_ref ''foo'', uri_ref ''git:B'' None)]) ?w)"
    by blast
  from t have twice:
    "userRegistryFile (snd (CmdFlakeAdd_run example_collaborators ''foo'' ''git:B''
        (snd (CmdFlakeAdd_run example_collaborators ''foo'' ''git:B'' ?w))))
     = userRegistryFile (snd (CmdFlakeAdd_run example_collaborators ''foo'' ''git:B'' ?w))"
    by blast
  have e: "erase (alias_ref ''foo'') (userRegistryFile ?w)
      = [(alias_ref ''bar'', uri_ref ''git:C'' None)]"
    by (simp add: example_world_def alias_ref_def)
  show ?thesis
    unfolding twice unfolding run e by (simp add: writeRegistry_def)
qed

text \<open>
  Claim C8.  When the alias parses, \<^verbatim>\<open>remove\<close> returns normally, with or without an
  entry for the alias, and persists the user registry with the entries of the alias
  erased: the alias has no entry afterwards and every other alias keeps its target.
  When the alias had no entry, the registry persisted is the registry read, and it is
  written all the same.
\<close>

theorem C8_remove_absent_ok:
  assumes "mkFlakeRef c als False = Inr aliasRef"
  shows "CmdFlakeRemove_run c als w = (None, writeRegistry (erase aliasRef (userRegistryFile w)) w)
     \<and> find_entry aliasRef (userRegistryFile (snd (CmdFlakeRemove_run c als w))) = None
     \<and> (\<forall>k. k \<noteq> aliasRef \<longrightarrow>
          find_entry k (userRegistryFile (snd (CmdFlakeRemove_run c als w)))
            = find_entry k (userRegistryFile w))
     \<and> (find_entry aliasRef (userRegistryFile w) = None \<longrightarrow>
          CmdFlakeRemove_run c als w = (None, writeRegistry (userRegistryFile w) w))
     \<and> registryWrites (snd (CmdFlakeRemove_run c als w))
          = registryWrites w @ [userRegistryFile (snd (CmdFlakeRemove_run c als w))]"
  using assms
  by (simp add: CmdFlakeRemove_run_def readRegistry_def Let_def writeRegistry_def
      find_entry_erase_same find_entry_erase_other erase_absent)

theorem C8_remove_absent_ok_witness:
  "CmdFlakeRemove_run example_collaborators ''foo''
     (example_world [(alias_ref ''foo'', uri_ref ''git:A'' None),
                     (alias_ref ''bar'', uri_ref ''git:C'' None)] [])
     = (None,
        writeRegistry [(alias_ref ''bar'', uri_ref ''git:C'' None)]
          (example_world [(alias_ref ''foo'', uri_ref ''git:A'' None),
                          (alias_ref ''bar'', uri_ref ''git:C'' None)] []))
   \<and> CmdFlakeRemove_run example_collaborators ''baz''
       (example_world [(alias_ref ''foo'', uri_ref ''git:A'' None),
                       (alias_ref ''bar'', uri_ref ''git:C'' None)] [])
     = (None,
        writeRegistry [(alias_ref ''foo'', uri_ref ''git:A'' None),
                       (alias_ref ''bar'', uri_ref ''git:C'' None)]
          (example_world [(alias_ref ''foo'', uri_ref ''git:A'' None),
                          (alias_ref ''bar'', uri_ref ''git:C'' None)] []))"
proof -
  have foo: "mkFlakeRef example_collaborators ''foo'' False = Inr (alias_ref ''foo'')"
    and baz: "mkFlakeRef example_collaborators ''baz'' False = Inr (alias_ref ''baz'')"
    by (simp_all add: example_collaborators_def)
  show ?thesis
    using C8_remove_absent_ok[OF foo, of "example_world
              [(alias_ref ''foo'', uri_ref ''git:A'' None),
               (alias_ref ''bar'', uri_ref ''git:C'' None)] []"]
      C8_remove_absent_ok[OF baz, of "example_world
              [(alias_ref ''foo'', uri_ref ''git:A'' None),
               (alias_ref ''bar'', uri_ref ''git:C'' None)] []"]
    by (simp add: example_world_def alias_ref_def uri_ref_def)
qed

text \<open>
  Claim C4, as amended.  \<^verbatim>\<open>add\<close> followed by \<^verbatim>\<open>remove\<close> of the same alias leaves the
  persisted user registry equal to the registry before the \<^verbatim>\<open>add\<close> with the entries of
  the alias erased.  It is the registry before the \<^verbatim>\<open>add\<close>, record for record, when the
  alias had no entry then.
\<close>

theorem C4_add_then_remove:
  assumes "mkFlakeRef c als False = Inr aliasRef"
  shows "userRegistryFile (snd (CmdFlakeRemove_run c als (snd (CmdFlakeAdd_run c als uri w))))
           = erase aliasRef (userRegistryFile w)
     \<and> (find_entry aliasRef (userRegistryFile w) = None \<longrightarrow>
          userRegistryFile (snd (CmdFlakeRemove_run c als (snd (CmdFlakeAdd_run c als uri w))))
            = userRegistryFile w)"
proof -
  have absent: "find_entry aliasRef (erase aliasRef es) = None" for es
    by (rule find_entry_erase_same)
  have "userRegistryFile (snd (CmdFlakeRemove_run c als (snd (CmdFlakeAdd_run c als uri w))))
           = erase aliasRef (userRegistryFile w)"
    using assms
    by (cases "mkFlakeRef c uri False")
      (simp_all add: CmdFlakeRemove_run_def CmdFlakeAdd_run_def readRegistry_def Let_def
        writeRegistry_def insert_or_assign_absent[OF absent] erase_append_singleton erase_idem)
  then show ?thesis by (simp add: erase_absent)
qed

theorem C4_add_then_remove_witness:
  "userRegistryFile (snd (CmdFlakeRemove_run example_collaborators ''foo''
      (snd (CmdFlakeAdd_run example_collaborators ''foo'' ''git:B''
         (example_world [(alias_ref ''bar'', uri_ref ''git:C'' None)] [])))))
   = [(alias_ref ''bar'', uri_ref ''git:C'' None)]"
proof -
  have foo: "mkFlakeRef example_collaborators ''foo'' False = Inr (alias_ref ''foo'')"
    by (simp add: example_collaborators_def)
  show ?thesis
    using C4_add_then_remove[OF foo, of "''git:B''"
        "example_world [(alias_ref ''bar'', uri_ref ''git:C'' None)] []"]
    by (simp add: example_world_def alias_ref_def uri_ref_def)
qed

text \<open>
  The claim as written fails when the alias had an entry before the \<^verbatim>\<open>add\<close>: the user
  registry holds \<open>foo\<close>, \<^verbatim>\<open>add foo git:B\<close> replaces its target, \<^verbatim>\<open>remove foo\<close> erases the
  entry, and the registry is empty, not the one before the \<^verbatim>\<open>add\<close>.
\<close>

theorem C4_add_then_remove_counterexample:
  "userRegistryFile (snd (CmdFlakeRemove_run example_collaborators ''foo''
      (snd (CmdFlakeAdd_run example_collaborators ''foo'' ''git:B''
         (example_world [(alias_ref ''foo'', uri_ref ''git:A'' None)] [])))))
   \<noteq> userRegistryFile (example_world [(alias_ref ''foo'', uri_ref ''git:A'' None)] [])"
  by (simp add: CmdFlakeRemove_run_def CmdFlakeAdd_run_def readRegistry_def Let_def
      writeRegistry_def example_defs)

subsection \<open>Updating the lock file\<close>

text \<open>
  Claim C2.  Let \<open>flakeRef\<close> be the reference of the command.  When it is a path,
  \<^verbatim>\<open>update\<close> calls \<^verbatim>\<open>updateLockFile\<close> on it, once, and ends as that call ends.  When it
  is not a path, \<^verbatim>\<open>update\<close> throws the not-updatable error and leaves the world as it
  was: no call of \<^verbatim>\<open>updateLockFile\<close> is made.  So a call is made, and the command can
  return normally, only for a path.
\<close>

theorem C2_update_only_path:
  assumes "getFlakeRef c flakeUri = Inr flakeRef"
  shows "((\<exists>p. data flakeRef = IsPath p) \<longrightarrow>
            CmdFlakeUpdate_run c flakeUri w =
              (updateLockFile c flakeRef True,
               w\<lparr>lockFileUpdates := lockFileUpdates w @ [(flakeRef, True)]\<rparr>))
     \<and> ((\<forall>p. data flakeRef \<noteq> IsPath p) \<longrightarrow>
            CmdFlakeUpdate_run c flakeUri w = (Some (NotUpdatableError flakeRef), w))
     \<and> (lockFileUpdates (snd (CmdFlakeUpdate_run c flakeUri w)) \<noteq> lockFileUpdates w \<longrightarrow>
            (\<exists>p. data flakeRef = IsPath p))
     \<and> (fst (CmdFlakeUpdate_run c flakeUri w) = None \<longrightarrow> (\<exists>p. data flakeRef = IsPath p))"
  using assms by (cases "data flakeRef") (auto simp: CmdFlakeUpdate_run_def)

theorem C2_update_only_path_witness:
  "CmdFlakeUpdate_run example_collaborators ''./dep'' (example_world [] []) =
     (None, (example_world [] [])\<lparr>lockFileUpdates := [(path_ref ''./dep'', True)]\<rparr>)
   \<and> CmdFlakeUpdate_run example_collaborators ''git:A'' (example_world [] []) =
       (Some (NotUpdatableError (uri_ref ''git:A'' None)), example_world [] [])
   \<and> CmdFlakeUpdate_run example_collaborators ''nixpkgs'' (example_world [] []) =
       (Some (NotUpdatableError (alias_ref ''nixpkgs'')), example_world [] [])"
proof -
  have dep: "getFlakeRef example_collaborators ''./dep'' = Inr (path_ref ''./dep'')"
    and git: "getFlakeRef example_collaborators ''git:A'' = Inr (uri_ref ''git:A'' None)"
    and nixpkgs: "getFlakeRef example_collaborators ''nixpkgs'' = Inr (alias_ref ''nixpkgs'')"
    by (simp_all add: getFlakeRef_flag example_collaborators_def)
  show ?thesis
    using C2_update_only_path[OF dep, of "example_world [] []"]
      C2_update_only_path[OF git, of "example_world [] []"]
      C2_update_only_path[OF nixpkgs, of "example_world [] []"]
    by (simp add: example_defs)
qed

subsection \<open>Listing the dependencies\<close>

text \<open>
  Claim C3.  One turn of the loop takes the node at the front of the queue, prints its
  non-flake dependencies, then prints the flake of each flake dependency, and puts these
  dependencies at the back of the queue.  Started on the root, the loop prints the
  contributions of the nodes level by level: first the root's (its dependencies), then
  those of the nodes one level down, and so on, each level in queue order; so what a
  node contributes is printed before anything its children contribute.  The command
  prints exactly that when the root resolves.  For a root with the dependencies A and B,
  where A has the dependency C, the listing is A, B, C.
\<close>

theorem C3_deps_breadth_first:
  "deps_loop (r # todo) out = deps_loop (todo @ children r) (out @ node_output r)
   \<and> deps_loop [root] [] = breadth_first_listing root
   \<and> (getFlakeRef c flakeUri = Inr flakeRef \<and> resolveFlake c w flakeRef = Inr root \<longrightarrow>
        CmdFlakeDeps_run c flakeUri w = (None, breadth_first_listing root))
   \<and> deps_loop
        [ResolvedFlake f0
           [(a, ResolvedFlake fa [(a', ResolvedFlake fc [] [])] []),
            (b, ResolvedFlake fb [] [])] []] []
       = [PrintFlakeInfo fa, PrintFlakeInfo fb, PrintFlakeInfo fc]"
proof (intro conjI impI)
  show "deps_loop (r # todo) out = deps_loop (todo @ children r) (out @ node_output r)"
    by (rule deps_loop_step)
  show "deps_loop [root] [] = breadth_first_listing root"
    by (rule deps_loop_listing)
  show "CmdFlakeDeps_run c flakeUri w = (None, breadth_first_listing root)"
    if "getFlakeRef c flakeUri = Inr flakeRef \<and> resolveFlake c w flakeRef = Inr root"
    using that by (simp add: CmdFlakeDeps_run_def deps_loop_listing del: deps_loop.simps)
  show "deps_loop
        [ResolvedFlake f0
           [(a, ResolvedFlake fa [(a', ResolvedFlake fc [] [])] []),
            (b, ResolvedFlake fb [] [])] []] []
       = [PrintFlakeInfo fa, PrintFlakeInfo fb, PrintFlakeInfo fc]"
    by simp
qed

theorem C3_deps_breadth_first_witness:
  "CmdFlakeDeps_run example_collaborators ''.'' (example_world [] []) =
     (None,
      [PrintFlakeInfo (flake_at ''depA'' (uri_ref ''git:A'' None)),
       PrintFlakeInfo (flake_at ''depB'' (uri_ref ''git:B'' None)),
       PrintNonFlakeInfo
         \<lparr>nonFlake_alias = ''data'',
          nonFlake_sourceInfo =
            \<lparr>resolvedRef = uri_ref ''git:D'' None, revCount = None,
             storePath = ''/nix/store/data''\<rparr>\<rparr>,
       PrintFlakeInfo (flake_at ''depC'' (uri_ref ''git:C'' None))])"
proof -
  have r: "getFlakeRef example_collaborators ''.'' = Inr (path_ref ''.'')
      \<and> resolveFlake example_collaborators (example_world [] []) (path_ref ''.'')
          = Inr example_graph"
    by (simp add: getFlakeRef_flag example_collaborators_def)
  have "breadth_first_listing example_graph =
      [PrintFlakeInfo (flake_at ''depA'' (uri_ref ''git:A'' None)),
       PrintFlakeInfo (flake_at ''depB'' (uri_ref ''git:B'' None)),
       PrintNonFlakeInfo
         \<lparr>nonFlake_alias = ''data'',
          nonFlake_sourceInfo =
            \<lparr>resolvedRef = uri_ref ''git:D'' None, revCount = None,
             storePath = ''/nix/store/data''\<rparr>\<rparr>,
       PrintFlakeInfo (flake_at ''depC'' (uri_ref ''git:C'' None))]"
    by (simp add: breadth_first_listing_def example_graph_def node_output_def children_def
        upt_rec)
  with r C3_deps_breadth_first[where c = example_collaborators and flakeUri = "''.''"
      and flakeRef = "path_ref ''.''" and w = "example_world [] []" and root = example_graph]
  show ?thesis by simp
qed

subsection \<open>Creating a skeleton flake\<close>

text \<open>
  Claim C10.  \<^verbatim>\<open>init\<close> throws and leaves the world as it was when the current directory
  has no \<^verbatim>\<open>.git\<close>, and when it has a \<^verbatim>\<open>flake.nix\<close> already.  When \<^verbatim>\<open>.git\<close> is there and
  \<^verbatim>\<open>flake.nix\<close> is not, it returns normally and the world differs by the file
  \<^verbatim>\<open>flake.nix\<close> alone, which holds the template.  The world changes only in that case.
\<close>

theorem C10_init_checks:
  "(\<not> pathExists w (absPath c ''.'' @ ''/.git'') \<longrightarrow>
      CmdFlakeInit_run c w = (Some (NotGitRepositoryError (absPath c ''.'')), w))
   \<and> (pathExists w (absPath c ''.'' @ ''/flake.nix'') \<longrightarrow>
      fst (CmdFlakeInit_run c w) \<noteq> None \<and> snd (CmdFlakeInit_run c w) = w)
   \<and> (pathExists w (absPath c ''.'' @ ''/.git'')
        \<and> pathExists w (absPath c ''.'' @ ''/flake.nix'') \<longrightarrow>
      CmdFlakeInit_run c w = (Some (FileExistsError (absPath c ''.'' @ ''/flake.nix'')), w))
   \<and> (pathExists w (absPath c ''.'' @ ''/.git'')
        \<and> \<not> pathExists w (absPath c ''.'' @ ''/flake.nix'') \<longrightarrow>
      CmdFlakeInit_run c w =
        (None, w\<lparr>files := (files w)(absPath c ''.'' @ ''/flake.nix''
                                \<mapsto> RegularFile (flakeTemplate c))\<rparr>))
   \<and> (snd (CmdFlakeInit_run c w) \<noteq> w \<longrightarrow>
      pathExists w (absPath c ''.'' @ ''/.git'')
      \<and> \<not> pathExists w (absPath c ''.'' @ ''/flake.nix''))"
  by (simp add: CmdFlakeInit_run_def Let_def writeFile_def)

theorem C10_init_checks_witness:
  "CmdFlakeInit_run example_collaborators (example_files []) =
     (Some (NotGitRepositoryError ''/home/user/project''), example_files [])
   \<and> CmdFlakeInit_run example_collaborators
       (example_files [''/home/user/project/.git'', ''/home/user/project/flake.nix'']) =
     (Some (FileExistsError ''/home/user/project/flake.nix''),
      example_files [''/home/user/project/.git'', ''/home/user/project/flake.nix''])
   \<and> fst (CmdFlakeInit_run example_collaborators
       (example_files [''/home/user/project/.git''])) = None
   \<and> files (snd (CmdFlakeInit_run example_collaborators
       (example_files [''/home/user/project/.git'']))) ''/home/user/project/flake.nix''
     = Some (RegularFile ''{ name = 0; }'')"
  using C10_init_checks[of "example_files []" example_collaborators]
    C10_init_checks[of
      "example_files [''/home/user/project/.git'', ''/home/user/project/flake.nix'']"
      example_collaborators]
    C10_init_checks[of "example_files [''/home/user/project/.git'']" example_collaborators]
  by (simp add: pathExists_def example_collaborators_def example_files_def)


end
